theory Spec2Isabelle
  imports Main "HOL-Library.AList"
begin

section \<open>Data model\<close>

text \<open>
  The classes \<open>Dependency\<close>, \<open>Term\<close> and the incompatibility causes are imported by
  \<open>poetry/mixology/incompatibility.py\<close> but defined elsewhere. A dependency is the
  record of the attributes that \<open>incompatibility.py\<close> reads from it; the version
  constraint is kept abstract as the type parameter \<open>'c\<close>.
\<close>

record 'c Dependency =
  name :: string
  pretty_name :: string
  complete_name :: string
  is_root :: bool
  constraint :: 'c
  pretty_constraint :: string

text \<open>
  Modelled from the spec: the class \<open>Term\<close> (\<open>poetry/mixology/term.py\<close>) is missing.
  The spec gives it as \<open>{ dependency: Dependency, positive: bool }\<close>; \<open>is_positive()\<close>
  reads the sign.
\<close>

record 'c Term =
  dependency :: "'c Dependency"
  is_positive :: bool

text \<open>
  Modelled from the spec: \<open>Term.inverse\<close> is missing; the spec says "inverse: flip sign".
\<close>

definition inverse_term :: "'c Term \<Rightarrow> 'c Term" where
  "inverse_term t = t\<lparr>is_positive := \<not> is_positive t\<rparr>"

text \<open>
  Modelled from the spec: \<open>Term.constraint\<close> is missing; a term carries no range of its
  own in the spec, so its constraint is the range of its dependency.
\<close>

definition term_constraint :: "'c Term \<Rightarrow> 'c" where
  "term_constraint t = constraint (dependency t)"

text \<open>
  The remaining operations of the missing classes are parameters of the model:
  \<open>Term.intersect\<close> (\<open>None\<close> is Python's \<open>None\<close>), \<open>Term.satisfies\<close>,
  \<open>constraint.is_any()\<close>, \<open>str(constraint)\<close> and the equality of dependencies.
\<close>

record 'c term_ops =
  intersect :: "'c Term \<Rightarrow> 'c Term \<Rightarrow> 'c Term option"
  satisfies :: "'c Term \<Rightarrow> 'c Term \<Rightarrow> bool"
  is_any :: "'c \<Rightarrow> bool"
  constraint_str :: "'c \<Rightarrow> string"
  dependency_eq :: "'c Dependency \<Rightarrow> 'c Dependency \<Rightarrow> bool"

text \<open>
  The causes of \<open>poetry/mixology/incompatibility_cause.py\<close>, with the payloads that
  \<open>incompatibility.py\<close> reads, and the incompatibility object itself: the two
  attributes \<open>_terms\<close> and \<open>_cause\<close>.
\<close>

datatype 'c Incompatibility =
  Incompatibility (terms: "'c Term list") (cause: "'c IncompatibilityCause")
and 'c IncompatibilityCause =
    RootCause
  | NoVersionsCause
  | DependencyCause
  | ConflictCause (conflict: "'c Incompatibility") (other: "'c Incompatibility")
  | PythonCause (python_version: string)
  | PlatformCause (platform: string)
  | PackageNotFoundCause

datatype error = AssertionError | IndexError | PackageNotFound string | HelperError string

section \<open>Construction\<close>

text \<open>Lines 28 to 37 of \<open>__init__\<close>: the root package is removed.\<close>

definition strip_root :: "'c Term list \<Rightarrow> 'c IncompatibilityCause \<Rightarrow> 'c Term list" where
  "strip_root ts c =
     (if length ts \<noteq> 1
         \<and> is_ConflictCause c
         \<and> list_ex (\<lambda>t. is_positive t \<and> is_root (dependency t)) ts
      then filter (\<lambda>t. \<not> is_positive t \<or> \<not> is_root (dependency t)) ts
      else ts)"

text \<open>The test of lines 39 to 45: one term, or two terms about different packages.\<close>

definition short_circuit :: "'c Term list \<Rightarrow> bool" where
  "short_circuit ts =
     (length ts = 1
      \<or> length ts = 2
        \<and> complete_name (dependency (ts ! 0)) \<noteq> complete_name (dependency (last ts)))"

text \<open>
  The dictionaries \<open>by_name\<close> and \<open>by_ref\<close> keep their insertion order, which the second
  loop reads, so they are association lists: a new key is appended, an old one is
  updated in place.
\<close>

type_synonym 'c by_ref = "(string \<times> 'c Term) list"
type_synonym 'c by_name = "(string \<times> 'c by_ref) list"

text \<open>One pass of the loop of lines 50 to 67; the assertion of line 65 is an error.\<close>

definition coalesce_term :: "'c term_ops \<Rightarrow> 'c by_name \<Rightarrow> 'c Term \<Rightarrow> error + 'c by_name" where
  "coalesce_term ops by_name t =
     (let cn = complete_name (dependency t);
          by_name1 = (if map_of by_name cn = None then AList.update cn [] by_name else by_name);
          by_ref = (case map_of by_name1 cn of None \<Rightarrow> [] | Some r \<Rightarrow> r);
          ref = complete_name (dependency t)
      in case map_of by_ref ref of
           Some prev \<Rightarrow>
             (case intersect ops prev t of
                None \<Rightarrow> Inl AssertionError
              | Some t' \<Rightarrow> Inr (AList.update cn (AList.update ref t' by_ref) by_name1))
         | None \<Rightarrow> Inr (AList.update cn (AList.update ref t by_ref) by_name1))"

fun coalesce_loop :: "'c term_ops \<Rightarrow> 'c by_name \<Rightarrow> 'c Term list \<Rightarrow> error + 'c by_name" where
  "coalesce_loop ops by_name [] = Inr by_name"
| "coalesce_loop ops by_name (t # ts) =
     (case coalesce_term ops by_name t of
        Inl e \<Rightarrow> Inl e
      | Inr by_name' \<Rightarrow> coalesce_loop ops by_name' ts)"

text \<open>The loop of lines 69 to 78 over \<open>by_name.values()\<close>.\<close>

fun collect_terms :: "'c by_ref list \<Rightarrow> 'c Term list" where
  "collect_terms [] = []"
| "collect_terms (by_ref # rest) =
     (let positive_terms = filter is_positive (map snd by_ref)
      in if positive_terms \<noteq> [] then positive_terms @ collect_terms rest
         else map snd by_ref @ collect_terms rest)"

text \<open>\<open>Incompatibility.__init__\<close>.\<close>

definition init :: "'c term_ops \<Rightarrow> 'c Term list \<Rightarrow> 'c IncompatibilityCause \<Rightarrow> error + 'c Incompatibility" where
  "init ops ts0 c =
     (let ts = strip_root ts0 c
      in if short_circuit ts then Inr (Incompatibility ts c)
         else case coalesce_loop ops [] ts of
                Inl e \<Rightarrow> Inl e
              | Inr by_name \<Rightarrow> Inr (Incompatibility (collect_terms (map snd by_name)) c))"

section \<open>Traversal and failure test\<close>

text \<open>
  \<open>external_incompatibilities\<close>: the generator yields its values in order, so it is
  the list of what it yields.
\<close>

fun external_incompatibilities :: "'c Incompatibility \<Rightarrow> 'c Incompatibility list" where
  "external_incompatibilities (Incompatibility ts (ConflictCause c o')) =
     external_incompatibilities c @ external_incompatibilities o'"
| "external_incompatibilities i = [i]"

definition is_failure :: "'c Incompatibility \<Rightarrow> bool" where
  "is_failure i =
     (length (terms i) = 0 \<or> (length (terms i) = 1 \<and> is_root (dependency (terms i ! 0))))"

section \<open>Rendering\<close>

text \<open>Python's \<open>str\<close> of an integer and \<open>sep.join\<close>.\<close>

definition digit_char :: "nat \<Rightarrow> char" where
  "digit_char d = char_of (48 + d)"

function str_nat :: "nat \<Rightarrow> string" where
  "str_nat n = (if n < 10 then [digit_char n] else str_nat (n div 10) @ [digit_char (n mod 10)])"
  by pat_completeness auto
termination
  by (relation "measure id") auto

declare str_nat.simps [simp del]

definition str_int :: "int \<Rightarrow> string" where
  "str_int i = (if i < 0 then CHR ''-'' # str_nat (nat (- i)) else str_nat (nat i))"

fun join :: "string \<Rightarrow> string list \<Rightarrow> string" where
  "join sep [] = []"
| "join sep [x] = x"
| "join sep (x # y # ys) = x @ sep @ join sep (y # ys)"

definition terse :: "'c term_ops \<Rightarrow> 'c Term \<Rightarrow> bool \<Rightarrow> string" where
  "terse ops t allow_every =
     (if allow_every \<and> is_any ops (term_constraint t)
      then ''every version of '' @ complete_name (dependency t)
      else if is_root (dependency t) then pretty_name (dependency t)
      else pretty_name (dependency t) @ '' ('' @ pretty_constraint (dependency t) @ '')'')"

fun single_term_loop :: "('c Term \<Rightarrow> bool) \<Rightarrow> 'c Term option \<Rightarrow> 'c Term list \<Rightarrow> 'c Term option" where
  "single_term_loop p found [] = found"
| "single_term_loop p found (t # ts) =
     (if \<not> p t then single_term_loop p found ts
      else if found \<noteq> None then None
      else single_term_loop p (Some t) ts)"

definition single_term_where :: "'c Incompatibility \<Rightarrow> ('c Term \<Rightarrow> bool) \<Rightarrow> 'c Term option" where
  "single_term_where i p = single_term_loop p None (terms i)"

text \<open>Lines 177 to 230 of \<open>__str__\<close>: the renderings that do not depend on the cause.\<close>

definition str_generic :: "'c term_ops \<Rightarrow> 'c Term list \<Rightarrow> error + string" where
  "str_generic ops ts =
     (if length ts = 1
      then Inr (name (dependency (ts ! 0)) @ '' is ''
                @ (if is_positive (ts ! 0) then ''forbidden'' else ''required''))
      else if length ts = 2 \<and> is_positive (ts ! 0) = is_positive (ts ! 1)
      then (if is_positive (ts ! 0)
            then (let package1 = (if is_any ops (term_constraint (ts ! 0))
                                  then name (dependency (ts ! 0)) else terse ops (ts ! 0) False);
                      package2 = (if is_any ops (term_constraint (ts ! 1))
                                  then name (dependency (ts ! 1)) else terse ops (ts ! 1) False)
                  in Inr (package1 @ '' is incompatible with '' @ package2))
            else Inr (''either '' @ terse ops (ts ! 0) False @ '' or '' @ terse ops (ts ! 1) False))
      else (let positive = map (\<lambda>t. terse ops t False) (filter is_positive ts);
                negative = map (\<lambda>t. terse ops t False) (filter (\<lambda>t. \<not> is_positive t) ts)
            in if positive \<noteq> [] \<and> negative \<noteq> []
               then (if length positive = 1
                     then (case filter is_positive ts of
                             [] \<Rightarrow> Inl IndexError
                           | positive_term # _ \<Rightarrow>
                               Inr (terse ops positive_term True @ '' requires ''
                                    @ join '' or '' negative))
                     else Inr (''if '' @ join '' and '' positive @ '' then ''
                               @ join '' or '' negative))
               else if positive \<noteq> []
               then Inr (''one of '' @ join '' or '' positive @ '' must be false'')
               else Inr (''one of '' @ join '' or '' negative @ '' must be true'')))"

text \<open>\<open>Incompatibility.__str__\<close>; a failed assertion is an error.\<close>

definition str_incompatibility :: "'c term_ops \<Rightarrow> 'c Incompatibility \<Rightarrow> error + string" where
  "str_incompatibility ops i =
     (let ts = terms i in
      case cause i of
        DependencyCause \<Rightarrow>
          if length ts \<noteq> 2 then Inl AssertionError
          else if \<not> is_positive (ts ! 0) then Inl AssertionError
          else if is_positive (ts ! 1) then Inl AssertionError
          else Inr (terse ops (ts ! 0) True @ '' depends on '' @ terse ops (ts ! 1) False)
      | PythonCause v \<Rightarrow>
          if length ts \<noteq> 1 then Inl AssertionError
          else if \<not> is_positive (ts ! 0) then Inl AssertionError
          else Inr (terse ops (ts ! 0) True @ '' requires '' @ ''Python '' @ v)
      | PlatformCause pf \<Rightarrow>
          if length ts \<noteq> 1 then Inl AssertionError
          else if \<not> is_positive (ts ! 0) then Inl AssertionError
          else Inr (terse ops (ts ! 0) True @ '' requires '' @ ''platform '' @ pf)
      | NoVersionsCause \<Rightarrow>
          if length ts \<noteq> 1 then Inl AssertionError
          else if \<not> is_positive (ts ! 0) then Inl AssertionError
          else Inr (''no versions of '' @ name (dependency (ts ! 0)) @ '' match ''
                    @ constraint_str ops (term_constraint (ts ! 0)))
      | PackageNotFoundCause \<Rightarrow>
          if length ts \<noteq> 1 then Inl AssertionError
          else if \<not> is_positive (ts ! 0) then Inl AssertionError
          else Inr (name (dependency (ts ! 0)) @ '' doesn'' @ [CHR 0x27] @ ''t exist'')
      | RootCause \<Rightarrow>
          if length ts \<noteq> 1 then Inl AssertionError
          else if is_positive (ts ! 0) then Inl AssertionError
          else if \<not> is_root (dependency (ts ! 0)) then Inl AssertionError
          else Inr (name (dependency (ts ! 0)) @ '' is ''
                    @ constraint_str ops (constraint (dependency (ts ! 0))))
      | ConflictCause _ _ \<Rightarrow>
          if is_failure i then Inr ''version solving failed''
          else str_generic ops ts)"

text \<open>The optional line numbers are \<open>int option\<close>; \<open>details\<close> is passed along and never read.\<close>

definition paren_line :: "int option \<Rightarrow> string" where
  "paren_line l = (case l of None \<Rightarrow> [] | Some n \<Rightarrow> '' ('' @ str_int n @ '')'')"

definition try_requires_both ::
  "'c term_ops \<Rightarrow> 'c Incompatibility \<Rightarrow> 'c Incompatibility \<Rightarrow> 'd \<Rightarrow> int option \<Rightarrow> int option
     \<Rightarrow> string option" where
  "try_requires_both ops self other' details this_line other_line =
     (if length (terms self) = 1 \<or> length (terms other') = 1 then None
      else case single_term_where self is_positive of
        None \<Rightarrow> None
      | Some this_positive \<Rightarrow>
         (case single_term_where other' is_positive of
            None \<Rightarrow> None
          | Some other_positive \<Rightarrow>
              if \<not> dependency_eq ops (dependency this_positive) (dependency other_positive)
              then None
              else (let this_negatives = join '' or ''
                          (map (\<lambda>t. terse ops t False) (filter (\<lambda>t. \<not> is_positive t) (terms self)));
                        other_negatives = join '' or ''
                          (map (\<lambda>t. terse ops t False) (filter (\<lambda>t. \<not> is_positive t) (terms other')));
                        is_dependency = (cause self = DependencyCause \<and> cause other' = DependencyCause)
                    in Some (terse ops this_positive True @ '' ''
                             @ (if is_dependency then ''depends on'' else ''requires'')
                             @ '' both '' @ this_negatives @ paren_line this_line
                             @ '' and '' @ other_negatives @ paren_line other_line))))"

text \<open>
  The tail of \<open>_try_requires_through\<close> (lines 356 to 392), once \<open>prior\<close> and \<open>latter\<close>
  are chosen.
\<close>

definition requires_through_text ::
  "'c term_ops \<Rightarrow> 'c Incompatibility \<Rightarrow> 'c Term \<Rightarrow> int option \<Rightarrow> 'c Incompatibility \<Rightarrow> int option
     \<Rightarrow> error + string option" where
  "requires_through_text ops prior prior_negative prior_line latter latter_line =
     (let prior_positives = filter is_positive (terms prior);
          tail = terse ops prior_negative False @ paren_line prior_line @ '' which ''
                 @ (if cause latter = DependencyCause then ''depends on '' else ''requires '')
                 @ join '' or ''
                     (map (\<lambda>t. terse ops t False) (filter (\<lambda>t. \<not> is_positive t) (terms latter)))
                 @ paren_line latter_line
      in if length prior_positives > 1
         then Inr (Some (''if '' @ join '' or '' (map (\<lambda>t. terse ops t False) prior_positives)
                         @ '' then '' @ tail))
         else case prior_positives of
                [] \<Rightarrow> Inl IndexError
              | p # _ \<Rightarrow>
                  Inr (Some (terse ops p True @ '' ''
                             @ (if cause prior = DependencyCause then ''depends on'' else ''requires'')
                             @ '' '' @ tail)))"

text \<open>
  The test shared by the two branches of lines 331 to 347: both terms are present, they
  have the same name, and the inverse of the negative one satisfies the positive one.
  It returns the negative term when it holds.
\<close>

definition pivot :: "'c term_ops \<Rightarrow> 'c Term option \<Rightarrow> 'c Term option \<Rightarrow> 'c Term option" where
  "pivot ops negative positive =
     (case (negative, positive) of
        (Some n, Some p) \<Rightarrow>
          if name (dependency n) = name (dependency p) \<and> satisfies ops (inverse_term n) p
          then Some n else None
      | _ \<Rightarrow> None)"

text \<open>
  \<open>_try_requires_through\<close>. Line 329 computes \<open>other_positive\<close> from \<open>self\<close>, and so
  does the model.
\<close>

definition try_requires_through ::
  "'c term_ops \<Rightarrow> 'c Incompatibility \<Rightarrow> 'c Incompatibility \<Rightarrow> 'd \<Rightarrow> int option \<Rightarrow> int option
     \<Rightarrow> error + string option" where
  "try_requires_through ops self other' details this_line other_line =
     (if length (terms self) = 1 \<or> length (terms other') = 1 then Inr None
      else
        (let this_negative = single_term_where self (\<lambda>t. \<not> is_positive t);
             other_negative = single_term_where other' (\<lambda>t. \<not> is_positive t)
         in if this_negative = None \<and> other_negative = None then Inr None
            else
              (let this_positive = single_term_where self is_positive;
                   other_positive = single_term_where self is_positive
               in case pivot ops this_negative other_positive of
                    Some prior_negative \<Rightarrow>
                      requires_through_text ops self prior_negative this_line other' other_line
                  | None \<Rightarrow>
                      (case pivot ops other_negative this_positive of
                         Some prior_negative \<Rightarrow>
                           requires_through_text ops other' prior_negative other_line self this_line
                       | None \<Rightarrow> Inr None))))"

text \<open>\<open>_try_requires_forbidden\<close>; an index past the end of a list is an error.\<close>

definition try_requires_forbidden ::
  "'c term_ops \<Rightarrow> 'c Incompatibility \<Rightarrow> 'c Incompatibility \<Rightarrow> 'd \<Rightarrow> int option \<Rightarrow> int option
     \<Rightarrow> error + string option" where
  "try_requires_forbidden ops self other' details this_line other_line =
     (if length (terms self) \<noteq> 1 \<and> length (terms other') \<noteq> 1 then Inr None
      else
        (let (prior, latter, prior_line, latter_line) =
               (if length (terms self) = 1 then (other', self, other_line, this_line)
                else (self, other', this_line, other_line))
         in case single_term_where prior (\<lambda>t. \<not> is_positive t) of
              None \<Rightarrow> Inr None
            | Some negative \<Rightarrow>
               (case terms latter of
                  [] \<Rightarrow> Inl IndexError
                | latter0 # _ \<Rightarrow>
                    if \<not> satisfies ops (inverse_term negative) latter0 then Inr None
                    else
                      (let positives = filter is_positive (terms prior);
                           tail = terse ops latter0 False @ '' ''
                                  @ (case prior_line of None \<Rightarrow> []
                                     | Some n \<Rightarrow> ''('' @ str_int n @ '') '')
                                  @ (case cause latter of
                                       PythonCause v \<Rightarrow> ''which requires Python '' @ v
                                     | NoVersionsCause \<Rightarrow>
                                         ''which doesn'' @ [CHR 0x27] @ ''t match any versions''
                                     | PackageNotFoundCause \<Rightarrow>
                                         ''which doesn'' @ [CHR 0x27] @ ''t exist''
                                     | _ \<Rightarrow> ''which is forbidden'')
                                  @ paren_line latter_line
                       in if length positives > 1
                          then Inr (Some (''if ''
                                 @ join '' or '' (map (\<lambda>t. terse ops t False) positives)
                                 @ '' then '' @ tail))
                          else case positives of
                                 [] \<Rightarrow> Inl IndexError
                               | p # _ \<Rightarrow>
                                   Inr (Some (terse ops p True
                                      @ (if cause prior = DependencyCause then '' depends on ''
                                         else '' requires '')
                                      @ tail))))))"

text \<open>\<open>and_to_string\<close>: the three templates in order, then the concatenation.\<close>

definition and_to_string ::
  "'c term_ops \<Rightarrow> 'c Incompatibility \<Rightarrow> 'c Incompatibility \<Rightarrow> 'd \<Rightarrow> int option \<Rightarrow> int option
     \<Rightarrow> error + string" where
  "and_to_string ops self other' details this_line other_line =
     (case try_requires_both ops self other' details this_line other_line of
        Some requires_both \<Rightarrow> Inr requires_both
      | None \<Rightarrow>
     (case try_requires_through ops self other' details this_line other_line of
        Inl e \<Rightarrow> Inl e
      | Inr (Some requires_through) \<Rightarrow> Inr requires_through
      | Inr None \<Rightarrow>
     (case try_requires_forbidden ops self other' details this_line other_line of
        Inl e \<Rightarrow> Inl e
      | Inr (Some requires_forbidden) \<Rightarrow> Inr requires_forbidden
      | Inr None \<Rightarrow>
     (case str_incompatibility ops self of
        Inl e \<Rightarrow> Inl e
      | Inr s1 \<Rightarrow>
     (case str_incompatibility ops other' of
        Inl e \<Rightarrow> Inl e
      | Inr s2 \<Rightarrow>
          Inr (join [CHR 0x0A]
                 ([s1]
                  @ (case this_line of None \<Rightarrow> [] | Some n \<Rightarrow> ['' '' @ str_int n])
                  @ ['' and '' @ s2]
                  @ (case other_line of None \<Rightarrow> [] | Some n \<Rightarrow> ['' '' @ str_int n]))))))))"

section \<open>A package index\<close>

text \<open>
  \<open>LegacyRepository\<close> inherits \<open>_get_response\<close>, \<open>_links_to_data\<close> and \<open>CACHE_VERSION\<close>
  from \<open>HTTPRepository\<close>, and calls \<open>canonicalize_name\<close>, \<open>Version.parse\<close> and
  \<open>page.links_for_version\<close>; none of them is in the sources, so they are parameters.
  A response that is \<open>None\<close> or otherwise false is \<open>None\<close>. The calls that may raise
  return a sum.
\<close>

record response =
  response_url :: string
  response_text :: string

record SimpleRepositoryPage =
  page_url :: string
  page_content :: string

record PackageInfo =
  info_name :: string
  info_version :: string
  summary :: string
  info_platform :: "string option"
  requires_dist :: "string list"
  requires_python :: "string option"
  files :: "string list"
  cache_version :: string

record ('v, 'l, 'r) repository =
  get_response :: "string \<Rightarrow> response option"
  canonicalize_name :: "string \<Rightarrow> string"
  version_parse :: "string \<Rightarrow> error + 'v"
  links_for_version :: "SimpleRepositoryPage \<Rightarrow> string \<Rightarrow> 'v \<Rightarrow> 'l list"
  links_to_data :: "'l list \<Rightarrow> PackageInfo \<Rightarrow> error + 'r"
  CACHE_VERSION :: string

definition get_page :: "('v, 'l, 'r) repository \<Rightarrow> string \<Rightarrow> SimpleRepositoryPage option" where
  "get_page repo endpoint =
     (case get_response repo endpoint of
        None \<Rightarrow> None
      | Some r \<Rightarrow> Some \<lparr>page_url = response_url r, page_content = response_text r\<rparr>)"

definition get_release_info :: "('v, 'l, 'r) repository \<Rightarrow> string \<Rightarrow> string \<Rightarrow> error + 'r" where
  "get_release_info repo nm version =
     (case get_page repo (''/'' @ canonicalize_name repo nm @ ''/'') of
        None \<Rightarrow> Inl (PackageNotFound (''No package named '' @ [CHR 0x22] @ nm @ [CHR 0x22]))
      | Some page \<Rightarrow>
          (case version_parse repo version of
             Inl e \<Rightarrow> Inl e
           | Inr v \<Rightarrow>
               links_to_data repo (links_for_version repo page nm v)
                 \<lparr>info_name = nm, info_version = version, summary = [],
                  info_platform = None, requires_dist = [], requires_python = None,
                  files = [], cache_version = CACHE_VERSION repo\<rparr>))"

section \<open>Notions used in the statements\<close>

text \<open>
  The package ref of a term is the complete name of its dependency: the key of both
  dictionaries in \<open>__init__\<close>.
\<close>

definition ref_of :: "'c Term \<Rightarrow> string" where
  "ref_of t = complete_name (dependency t)"

text \<open>
  The intersection of the terms of one package, taken from left to right in list order;
  \<open>None\<close> when there is no such term or when an intersection on the way is empty.
\<close>

fun intersect_from :: "'c term_ops \<Rightarrow> 'c Term option \<Rightarrow> 'c Term list \<Rightarrow> 'c Term option" where
  "intersect_from ops acc [] = acc"
| "intersect_from ops None (t # ts) = intersect_from ops (Some t) ts"
| "intersect_from ops (Some a) (t # ts) =
     (case intersect ops a t of None \<Rightarrow> None | Some a' \<Rightarrow> intersect_from ops (Some a') ts)"

definition package_intersection :: "'c term_ops \<Rightarrow> 'c Term list \<Rightarrow> string \<Rightarrow> 'c Term option" where
  "package_intersection ops ts cn = intersect_from ops None (filter (\<lambda>t. ref_of t = cn) ts)"

text \<open>
  A positive term on the root package, and the two properties of the missing
  \<open>Term.intersect\<close> that the construction relies on: intersecting two terms gives a
  positive root term only if one of them is a positive root term, and intersecting two
  terms of one package gives a term of that package.
\<close>

definition positive_root :: "'c Term \<Rightarrow> bool" where
  "positive_root t = (is_positive t \<and> is_root (dependency t))"

definition root_free_intersect :: "'c term_ops \<Rightarrow> bool" where
  "root_free_intersect ops =
     (\<forall>a b r. intersect ops a b = Some r \<longrightarrow> positive_root r \<longrightarrow> positive_root a \<or> positive_root b)"

definition intersect_keeps_ref :: "'c term_ops \<Rightarrow> bool" where
  "intersect_keeps_ref ops =
     (\<forall>a b r. ref_of a = ref_of b \<longrightarrow> intersect ops a b = Some r \<longrightarrow> ref_of r = ref_of a)"

text \<open>
  The failure test as the specification words it: no term, or a single negative term
  on the root package. It is compared with \<open>is_failure\<close> below.
\<close>

definition failure_spec :: "'c Incompatibility \<Rightarrow> bool" where
  "failure_spec i =
     (terms i = []
      \<or> (length (terms i) = 1 \<and> \<not> is_positive (terms i ! 0) \<and> is_root (dependency (terms i ! 0))))"

text \<open>
  The derivation graph: \<open>reachable i j\<close> when \<open>j\<close> is \<open>i\<close> or is reached from \<open>i\<close>
  through the two parents of conflict causes.
\<close>

inductive reachable :: "'c Incompatibility \<Rightarrow> 'c Incompatibility \<Rightarrow> bool" where
  here: "reachable i i"
| through_conflict: "reachable c j \<Longrightarrow> reachable (Incompatibility ts (ConflictCause c o')) j"
| through_other: "reachable o' j \<Longrightarrow> reachable (Incompatibility ts (ConflictCause c o')) j"

text \<open>
  The precondition of the assertion in its pairwise wording: every two terms of the list
  about the same package have a non-empty intersection.
\<close>

definition pairwise_nonempty :: "'c term_ops \<Rightarrow> 'c Term list \<Rightarrow> bool" where
  "pairwise_nonempty ops ts =
     list_all (\<lambda>a. list_all (\<lambda>b. if ref_of a = ref_of b then intersect ops a b \<noteq> None else True) ts) ts"





section \<open>The dictionaries, flattened\<close>

text \<open>
  Both dictionaries of \<open>__init__\<close> use the complete name as key, so every \<open>by_ref\<close>
  holds one entry under the key of the \<open>by_name\<close> entry it belongs to. The loop is
  therefore simulated by one on a single association list from names to terms.
\<close>

definition nest :: "(string \<times> 'c Term) list \<Rightarrow> 'c by_name" where
  "nest fl = map (\<lambda>(k, t). (k, [(k, t)])) fl"

definition flat_step :: "'c term_ops \<Rightarrow> (string \<times> 'c Term) list \<Rightarrow> 'c Term \<Rightarrow> error + (string \<times> 'c Term) list" where
  "flat_step ops fl t =
     (case map_of fl (ref_of t) of
        None \<Rightarrow> Inr (AList.update (ref_of t) t fl)
      | Some prev \<Rightarrow>
          (case intersect ops prev t of
             None \<Rightarrow> Inl AssertionError
           | Some t' \<Rightarrow> Inr (AList.update (ref_of t) t' fl)))"

fun flat_loop :: "'c term_ops \<Rightarrow> (string \<times> 'c Term) list \<Rightarrow> 'c Term list \<Rightarrow> error + (string \<times> 'c Term) list" where
  "flat_loop ops fl [] = Inr fl"
| "flat_loop ops fl (t # ts) =
     (case flat_step ops fl t of Inl e \<Rightarrow> Inl e | Inr fl' \<Rightarrow> flat_loop ops fl' ts)"

section \<open>An instance: constraints as lists of alternatives\<close>

text \<open>
  A concrete choice of the parameters, for evaluating the model: a constraint is the
  list of the alternatives it allows, intersection keeps the common ones, a negative
  term removes its alternatives from a positive one, and two negative terms are merged.
  A term satisfies another when intersecting with it changes nothing.
\<close>

definition ex_term :: "string list Dependency \<Rightarrow> string list \<Rightarrow> bool \<Rightarrow> string list Term option" where
  "ex_term d c p =
     (if c = [] then None
      else Some \<lparr>dependency = d\<lparr>constraint := c, pretty_constraint := join '' || '' c\<rparr>,
                 is_positive = p\<rparr>)"

definition ex_intersect :: "string list Term \<Rightarrow> string list Term \<Rightarrow> string list Term option" where
  "ex_intersect a b =
     (let ca = constraint (dependency a); cb = constraint (dependency b)
      in if is_positive a \<and> is_positive b
         then ex_term (dependency a) (filter (\<lambda>v. v \<in> set cb) ca) True
         else if is_positive a
         then ex_term (dependency a) (filter (\<lambda>v. v \<notin> set cb) ca) True
         else if is_positive b
         then ex_term (dependency b) (filter (\<lambda>v. v \<notin> set ca) cb) True
         else ex_term (dependency a) (ca @ filter (\<lambda>v. v \<notin> set ca) cb) False)"

definition ex_satisfies :: "string list Term \<Rightarrow> string list Term \<Rightarrow> bool" where
  "ex_satisfies a b = (ref_of a = ref_of b \<and> ex_intersect a b = Some a)"

text \<open>
  Two dependencies are equal when they name the same package with the same constraint,
  as the pairs of package ref and version range of the specification are; the text the
  constraint was written in, \<open>pretty_constraint\<close>, is not compared.
\<close>

definition ex_dependency_eq :: "string list Dependency \<Rightarrow> string list Dependency \<Rightarrow> bool" where
  "ex_dependency_eq d e =
     (name d = name e \<and> complete_name d = complete_name e \<and> is_root d = is_root e
      \<and> constraint d = constraint e)"

definition ex_ops :: "string list term_ops" where
  "ex_ops = \<lparr>intersect = ex_intersect, satisfies = ex_satisfies,
             is_any = (\<lambda>c. ''*'' \<in> set c), constraint_str = join '' || '',
             dependency_eq = ex_dependency_eq\<rparr>"

definition dep :: "string \<Rightarrow> bool \<Rightarrow> string list \<Rightarrow> string list Dependency" where
  "dep n r c = \<lparr>name = n, pretty_name = n, complete_name = n, is_root = r, constraint = c,
               pretty_constraint = join '' || '' c\<rparr>"

definition pos :: "string \<Rightarrow> string list \<Rightarrow> string list Term" where
  "pos n c = \<lparr>dependency = dep n False c, is_positive = True\<rparr>"

definition neg :: "string \<Rightarrow> string list \<Rightarrow> string list Term" where
  "neg n c = \<lparr>dependency = dep n False c, is_positive = False\<rparr>"

definition root_term :: "bool \<Rightarrow> string list Term" where
  "root_term p = \<lparr>dependency = dep ''root'' True [''1.0.0''], is_positive = p\<rparr>"

text \<open>
  Two dependency incompatibilities sharing the package \<open>b\<close>, a conflict derived from
  them, and term lists for the constructor.
\<close>

definition a_on_b :: "string list Incompatibility" where
  "a_on_b = Incompatibility [pos ''a'' [''1.0.0''], neg ''b'' [''2.0.0'']] DependencyCause"

definition b_on_c :: "string list Incompatibility" where
  "b_on_c = Incompatibility [pos ''b'' [''2.0.0''], neg ''c'' [''3.0.0'']] DependencyCause"

definition conflict_terms :: "string list Term list" where
  "conflict_terms =
     [pos ''a'' [''1.0.0'', ''1.1.0''], root_term True, neg ''b'' [''2.0.0''],
      pos ''a'' [''1.1.0'', ''1.2.0'']]"

definition learned :: "string list Incompatibility" where
  "learned = Incompatibility [pos ''a'' [''1.1.0''], neg ''b'' [''2.0.0'']] (ConflictCause a_on_b b_on_c)"

definition derived :: "string list Incompatibility" where
  "derived = Incompatibility [] (ConflictCause learned b_on_c)"

definition clash_terms :: "string list Term list" where
  "clash_terms = [pos ''a'' [''1.0.0''], neg ''b'' [''2.0.0''], pos ''a'' [''1.2.0'']]"

definition overlap_terms :: "string list Term list" where
  "overlap_terms = [pos ''a'' [''1.0.0'', ''1.1.0''], neg ''b'' [''2.0.0''], neg ''a'' [''1.0.0'']]"

text \<open>
  Three terms about one package of which every two intersect, and not all three.
\<close>

definition pairwise_terms :: "string list Term list" where
  "pairwise_terms =
     [pos ''a'' [''1.0.0'', ''1.1.0''], neg ''a'' [''1.0.0''], neg ''a'' [''1.1.0'']]"




text \<open>
  A package index that serves the page of one package, \<open>demo\<close>, with one release;
  as in \<open>HTTPRepository\<close>, no link for a version is a package that is not found.
\<close>

definition ex_repo :: "(string, string, string list) repository" where
  "ex_repo =
     \<lparr>get_response = (\<lambda>endpoint. if endpoint = ''/demo/''
                        then Some \<lparr>response_url = ''http://foo.bar/demo/'', response_text = ''demo-0.1.0.tar.gz''\<rparr>
                        else None),
      canonicalize_name = (\<lambda>n. n),
      version_parse = (\<lambda>v. if v = [] then Inl (HelperError ''InvalidVersion'') else Inr v),
      links_for_version = (\<lambda>page n v. if page_content page = n @ ''-'' @ v @ ''.tar.gz'' then [page_url page @ page_content page] else []),
      links_to_data = (\<lambda>links info.
         if links = [] then Inl (PackageNotFound ''No valid distribution links found'')
         else Inr (info_name info # info_version info # links)),
      CACHE_VERSION = ''1.0.0''\<rparr>"

section \<open>The construction loop on the flattened dictionary\<close>

lemma map_of_nest: "map_of (nest fl) k = map_option (\<lambda>t. [(k, t)]) (map_of fl k)"
  by (induction fl) (auto simp: nest_def)

lemma update_nest: "AList.update k [(k, t)] (nest fl) = nest (AList.update k t fl)"
  by (induction fl) (auto simp: nest_def)

lemma coalesce_term_nest:
  "coalesce_term ops (nest fl) t =
     (case flat_step ops fl t of Inl e \<Rightarrow> Inl e | Inr fl' \<Rightarrow> Inr (nest fl'))"
  by (cases "map_of fl (ref_of t)")
     (auto simp: coalesce_term_def flat_step_def ref_of_def map_of_nest update_nest
                 AList.update_conv' split: option.splits)

lemma coalesce_loop_nest:
  "coalesce_loop ops (nest fl) ts =
     (case flat_loop ops fl ts of Inl e \<Rightarrow> Inl e | Inr fl' \<Rightarrow> Inr (nest fl'))"
  by (induction ts arbitrary: fl) (auto simp: coalesce_term_nest split: sum.splits)

lemma collect_terms_nest: "collect_terms (map snd (nest fl)) = map snd fl"
  by (induction fl) (auto simp: nest_def)

lemma nest_Nil: "nest [] = []"
  by (simp add: nest_def)

lemma init_flat:
  "init ops ts c =
     (if short_circuit (strip_root ts c) then Inr (Incompatibility (strip_root ts c) c)
      else case flat_loop ops [] (strip_root ts c) of
             Inl e \<Rightarrow> Inl e
           | Inr fl \<Rightarrow> Inr (Incompatibility (map snd fl) c))"
proof -
  have "coalesce_loop ops [] (strip_root ts c) =
      (case flat_loop ops [] (strip_root ts c) of Inl e \<Rightarrow> Inl e | Inr fl' \<Rightarrow> Inr (nest fl'))"
    using coalesce_loop_nest [of ops "[]" "strip_root ts c"] by (simp add: nest_Nil)
  then show ?thesis
    by (simp add: init_def collect_terms_nest split: sum.splits)
qed

lemma set_update_subset: "set (AList.update k v al) \<subseteq> insert (k, v) (set al)"
  by (induction al) auto

text \<open>
  A property of terms that the intersection preserves holds of every stored term.
\<close>

lemma flat_step_invariant:
  assumes "flat_step ops fl t = Inr fl'"
    and "P t" and "\<forall>u \<in> snd ` set fl. P u"
    and "\<And>a b r. P a \<Longrightarrow> P b \<Longrightarrow> intersect ops a b = Some r \<Longrightarrow> P r"
  shows "\<forall>u \<in> snd ` set fl'. P u"
proof (cases "map_of fl (ref_of t)")
  case None
  with assms(1) have "fl' = AList.update (ref_of t) t fl"
    by (simp add: flat_step_def)
  with assms(2,3) set_update_subset [of "ref_of t" t fl] show ?thesis
    by fastforce
next
  case (Some prev)
  then have "P prev"
    using assms(3) by (force dest: map_of_SomeD)
  from Some assms(1) obtain r where r: "intersect ops prev t = Some r"
    and fl': "fl' = AList.update (ref_of t) r fl"
    by (auto simp: flat_step_def split: option.splits)
  from assms(4) [OF \<open>P prev\<close> assms(2) r] have "P r" .
  with fl' assms(3) set_update_subset [of "ref_of t" r fl] show ?thesis
    by fastforce
qed

lemma flat_loop_invariant:
  assumes "flat_loop ops fl ts = Inr fl'"
    and "\<forall>t \<in> set ts. P t" and "\<forall>u \<in> snd ` set fl. P u"
    and "\<And>a b r. P a \<Longrightarrow> P b \<Longrightarrow> intersect ops a b = Some r \<Longrightarrow> P r"
  shows "\<forall>u \<in> snd ` set fl'. P u"
  using assms(1,2,3)
proof (induction ts arbitrary: fl)
  case Nil
  then show ?case by simp
next
  case (Cons t ts)
  from Cons.prems(1) obtain fl1 where s: "flat_step ops fl t = Inr fl1"
    and l: "flat_loop ops fl1 ts = Inr fl'"
    by (auto split: sum.splits)
  have "\<forall>u \<in> snd ` set fl1. P u"
    using flat_step_invariant [OF s _ Cons.prems(3) assms(4)] Cons.prems(2) by simp
  with Cons.IH [OF l] Cons.prems(2) show ?case by simp
qed

text \<open>
  Keys stay distinct, and each key holds the left-to-right intersection of the terms of
  its package seen so far.
\<close>

lemma flat_step_keys:
  assumes "flat_step ops fl t = Inr fl'" and "distinct (map fst fl)"
  shows "distinct (map fst fl')"
  using assms by (auto simp: flat_step_def AList.distinct_update split: option.splits)

lemma flat_loop_keys:
  assumes "flat_loop ops fl ts = Inr fl'" and "distinct (map fst fl)"
  shows "distinct (map fst fl')"
  using assms
  by (induction ts arbitrary: fl) (auto split: sum.splits dest: flat_step_keys)

lemma flat_step_value:
  assumes "flat_step ops fl t = Inr fl'"
  shows "intersect_from ops (map_of fl' k) (filter (\<lambda>u. ref_of u = k) ts)
       = intersect_from ops (map_of fl k) (filter (\<lambda>u. ref_of u = k) (t # ts))"
  using assms
  by (cases "map_of fl (ref_of t)")
     (auto simp: flat_step_def AList.update_conv' split: option.splits)

lemma flat_loop_value:
  assumes "flat_loop ops fl ts = Inr fl'"
  shows "map_of fl' k = intersect_from ops (map_of fl k) (filter (\<lambda>u. ref_of u = k) ts)"
  using assms
proof (induction ts arbitrary: fl)
  case Nil
  then show ?case by simp
next
  case (Cons t ts)
  from Cons.prems obtain fl1 where s: "flat_step ops fl t = Inr fl1"
    and l: "flat_loop ops fl1 ts = Inr fl'"
    by (auto split: sum.splits)
  show ?case
    using Cons.IH [OF l] flat_step_value [OF s, of k ts] by simp
qed

lemma flat_step_refs:
  assumes "flat_step ops fl t = Inr fl'" and "intersect_keeps_ref ops"
    and "\<forall>(k, u) \<in> set fl. ref_of u = k"
  shows "\<forall>(k, u) \<in> set fl'. ref_of u = k"
proof (cases "map_of fl (ref_of t)")
  case None
  with assms(1) have "fl' = AList.update (ref_of t) t fl"
    by (simp add: flat_step_def)
  with assms(3) set_update_subset [of "ref_of t" t fl] show ?thesis
    by fastforce
next
  case (Some prev)
  then have "ref_of prev = ref_of t"
    using assms(3) by (force dest: map_of_SomeD)
  from Some assms(1) obtain r where r: "intersect ops prev t = Some r"
    and fl': "fl' = AList.update (ref_of t) r fl"
    by (auto simp: flat_step_def split: option.splits)
  from assms(2) \<open>ref_of prev = ref_of t\<close> r have "ref_of r = ref_of t"
    unfolding intersect_keeps_ref_def by metis
  with fl' assms(3) set_update_subset [of "ref_of t" r fl] show ?thesis
    by fastforce
qed

lemma flat_loop_refs:
  assumes "flat_loop ops fl ts = Inr fl'" and "intersect_keeps_ref ops"
    and "\<forall>(k, u) \<in> set fl. ref_of u = k"
  shows "\<forall>(k, u) \<in> set fl'. ref_of u = k"
  using assms(1,3)
proof (induction ts arbitrary: fl)
  case Nil
  then show ?case by simp
next
  case (Cons t ts)
  from Cons.prems(1) obtain fl1 where s: "flat_step ops fl t = Inr fl1"
    and l: "flat_loop ops fl1 ts = Inr fl'"
    by (auto split: sum.splits)
  show ?case
    using Cons.IH [OF l flat_step_refs [OF s assms(2) Cons.prems(2)]] .
qed

text \<open>
  The loop stops with an error exactly when the running intersection of some package
  becomes empty.
\<close>

lemma flat_step_error:
  "flat_step ops fl t = Inl e \<longleftrightarrow>
     e = AssertionError \<and> (\<exists>prev. map_of fl (ref_of t) = Some prev \<and> intersect ops prev t = None)"
  by (auto simp: flat_step_def split: option.splits)

lemma flat_loop_error:
  "flat_loop ops fl ts = Inl e \<longleftrightarrow>
     e = AssertionError
     \<and> (\<exists>k \<in> set (map ref_of ts).
           intersect_from ops (map_of fl k) (filter (\<lambda>u. ref_of u = k) ts) = None)"
proof (induction ts arbitrary: fl)
  case Nil
  then show ?case by simp
next
  case (Cons t ts)
  show ?case
  proof (cases "flat_step ops fl t")
    case (Inl e')
    then obtain prev where e': "e' = AssertionError" and p: "map_of fl (ref_of t) = Some prev"
      and n: "intersect ops prev t = None"
      by (auto simp: flat_step_error)
    have "intersect_from ops (map_of fl (ref_of t)) (filter (\<lambda>u. ref_of u = ref_of t) (t # ts)) = None"
      using p n by simp
    then have "\<exists>k \<in> set (map ref_of (t # ts)).
           intersect_from ops (map_of fl k) (filter (\<lambda>u. ref_of u = k) (t # ts)) = None"
      by (intro bexI [of _ "ref_of t"]) simp_all
    with Inl e' show ?thesis by auto
  next
    case (Inr fl1)
    have v: "\<And>k. intersect_from ops (map_of fl1 k) (filter (\<lambda>u. ref_of u = k) ts)
       = intersect_from ops (map_of fl k) (filter (\<lambda>u. ref_of u = k) (t # ts))"
      using flat_step_value [OF Inr] by simp
    have here: "intersect_from ops (map_of fl1 (ref_of t)) [] \<noteq> None"
      using Inr by (auto simp: flat_step_def AList.update_conv' split: option.splits)
    have "(\<exists>k \<in> set (map ref_of ts).
           intersect_from ops (map_of fl1 k) (filter (\<lambda>u. ref_of u = k) ts) = None)
       \<longleftrightarrow> (\<exists>k \<in> set (map ref_of (t # ts)).
           intersect_from ops (map_of fl k) (filter (\<lambda>u. ref_of u = k) (t # ts)) = None)"
      (is "?L \<longleftrightarrow> ?R")
    proof
      assume ?L
      then obtain k where k: "k \<in> set (map ref_of ts)"
        and f: "intersect_from ops (map_of fl1 k) (filter (\<lambda>u. ref_of u = k) ts) = None"
        by blast
      from f have "intersect_from ops (map_of fl k) (filter (\<lambda>u. ref_of u = k) (t # ts)) = None"
        by (simp only: v)
      moreover from k have "k \<in> set (map ref_of (t # ts))" by simp
      ultimately show ?R by blast
    next
      assume ?R
      then obtain k where k: "k \<in> set (map ref_of (t # ts))"
        and f0: "intersect_from ops (map_of fl k) (filter (\<lambda>u. ref_of u = k) (t # ts)) = None"
        by blast
      from f0 have f: "intersect_from ops (map_of fl1 k) (filter (\<lambda>u. ref_of u = k) ts) = None"
        by (simp only: v)
      show ?L
      proof (cases "k \<in> set (map ref_of ts)")
        case True
        with f show ?thesis by blast
      next
        case False
        then have "filter (\<lambda>u. ref_of u = k) ts = []"
          by (auto simp: filter_empty_conv)
        moreover from False k have "k = ref_of t" by simp
        ultimately show ?thesis using f here by simp
      qed
    qed
    with Cons.IH [of fl1] Inr show ?thesis by simp
  qed
qed

text \<open>
  The instance has the two properties of the intersection.
\<close>

lemma ex_ops_root_free: "root_free_intersect ex_ops"
  unfolding root_free_intersect_def
  by (auto simp: ex_ops_def ex_intersect_def ex_term_def positive_root_def Let_def
           split: if_splits)

lemma ex_ops_keeps_ref: "intersect_keeps_ref ex_ops"
  unfolding intersect_keeps_ref_def
  by (auto simp: ex_ops_def ex_intersect_def ex_term_def ref_of_def Let_def
           split: if_splits)

lemma init_conflict_terms: "init ex_ops conflict_terms (ConflictCause a_on_b b_on_c) = Inr learned"
  by code_simp

section \<open>The failure test\<close>

text \<open>
  \<open>is_failure\<close> does not read the sign of the single term: a conflict whose only term
  is a positive term on the root package is a failure, although the specification's
  wording asks for a negative term.
\<close>

theorem is_failure_positive_root_counterexample:
  "is_failure (Incompatibility [root_term True] (ConflictCause a_on_b b_on_c))
   \<and> \<not> failure_spec (Incompatibility [root_term True] (ConflictCause a_on_b b_on_c))"
  by (simp add: is_failure_def failure_spec_def root_term_def dep_def)

text \<open>
  C1, as the code has it: \<open>is_failure\<close> holds if and only if the term list is empty
  or consists of exactly one term on the root package, whatever its sign.
\<close>

theorem is_failure_iff:
  "is_failure i \<longleftrightarrow> terms i = [] \<or> (\<exists>t. terms i = [t] \<and> is_root (dependency t))"
  by (cases "terms i") (auto simp: is_failure_def)

theorem is_failure_iff_witness:
  "is_failure (Incompatibility [root_term True] (ConflictCause a_on_b b_on_c))
   \<and> is_failure (Incompatibility [root_term False] RootCause)
   \<and> \<not> is_failure a_on_b"
  using is_failure_iff [of "Incompatibility [root_term True] (ConflictCause a_on_b b_on_c)"]
    is_failure_iff [of "Incompatibility [root_term False] RootCause"]
    is_failure_iff [of a_on_b]
  by (simp add: root_term_def dep_def a_on_b_def)

section \<open>The requires-through template\<close>

text \<open>
  The outcome of \<open>_try_requires_through\<close> is decided by the single negative terms of
  both arguments and the single positive term of \<open>self\<close>: when neither negative term
  pivots on the positive term of \<open>self\<close>, the result is \<open>None\<close>, whatever the positive
  terms of \<open>other\<close> are.
\<close>

lemma try_requires_through_self_positive_only:
  assumes "pivot ops (single_term_where self (\<lambda>t. \<not> is_positive t))
             (single_term_where self is_positive) = None"
    and "pivot ops (single_term_where other' (\<lambda>t. \<not> is_positive t))
             (single_term_where self is_positive) = None"
  shows "try_requires_through ops self other' details this_line other_line = Inr None"
  using assms by (simp add: try_requires_through_def Let_def)

text \<open>
  C2: \<open>a_on_b\<close> has exactly one negative term, on \<open>b\<close>, and its inverse satisfies the
  only positive term of \<open>b_on_c\<close>; both have two terms. With \<open>a_on_b\<close> as receiver,
  \<open>_try_requires_through\<close> returns \<open>None\<close> and \<open>and_to_string\<close> falls back to the
  concatenation of the two renderings; with the arguments exchanged it renders the
  requires-through template. Line 329 reads \<open>other_positive\<close> from \<open>self\<close>, while line
  280 of \<open>_try_requires_both\<close> reads it from \<open>other\<close>.
\<close>

theorem and_to_string_misses_requires_through:
  "length (terms a_on_b) = 2 \<and> length (terms b_on_c) = 2
   \<and> single_term_where a_on_b (\<lambda>t. \<not> is_positive t) = Some (neg ''b'' [''2.0.0''])
   \<and> single_term_where b_on_c is_positive = Some (pos ''b'' [''2.0.0''])
   \<and> satisfies ex_ops (inverse_term (neg ''b'' [''2.0.0''])) (pos ''b'' [''2.0.0''])
   \<and> try_requires_through ex_ops a_on_b b_on_c () None None = Inr None
   \<and> and_to_string ex_ops a_on_b b_on_c () None None
     = Inr (''a (1.0.0) depends on b (2.0.0)'' @ [CHR 0x0A] @ '' and b (2.0.0) depends on c (3.0.0)'')
   \<and> and_to_string ex_ops b_on_c a_on_b () None None
     = Inr ''a (1.0.0) depends on b (2.0.0) which depends on c (3.0.0)''"
  by code_simp

section \<open>Stripping the root package\<close>

lemma strip_root_filter:
  assumes "length ts \<noteq> 1" and "is_ConflictCause c"
  shows "strip_root ts c = filter (\<lambda>t. \<not> positive_root t) ts"
proof (cases "list_ex (\<lambda>t. is_positive t \<and> is_root (dependency t)) ts")
  case True
  with assms show ?thesis
    by (simp add: strip_root_def positive_root_def)
next
  case False
  then have "filter (\<lambda>t. \<not> positive_root t) ts = ts"
    by (simp add: list_ex_iff positive_root_def)
  with False assms show ?thesis
    by (simp add: strip_root_def)
qed

lemma init_root_free:
  assumes "root_free_intersect ops" and "\<forall>t \<in> set (strip_root ts c). \<not> positive_root t"
    and "init ops ts c = Inr i"
  shows "\<forall>t \<in> set (terms i). \<not> positive_root t"
proof (cases "short_circuit (strip_root ts c)")
  case True
  with assms(3) have "terms i = strip_root ts c"
    by (auto simp: init_flat)
  with assms(2) show ?thesis by simp
next
  case False
  with assms(3) obtain fl where fl: "flat_loop ops [] (strip_root ts c) = Inr fl"
    and i: "terms i = map snd fl"
    by (auto simp: init_flat split: sum.splits)
  have "\<forall>u \<in> snd ` set fl. \<not> positive_root u"
  proof (rule flat_loop_invariant [OF fl assms(2)])
    show "\<forall>u \<in> snd ` set []. \<not> positive_root u" by simp
  next
    fix a b r :: "'a Term"
    assume "\<not> positive_root a" "\<not> positive_root b" "intersect ops a b = Some r"
    with assms(1) show "\<not> positive_root r"
      unfolding root_free_intersect_def by blast
  qed
  with i show ?thesis by simp
qed

text \<open>
  C3: for a terms list of length at least 2 and a conflict cause, every positive term
  on the root package is removed before coalescing, and the constructed incompatibility
  holds no positive term on the root package. The second part relies on the missing
  \<open>Term.intersect\<close> not producing such a term from terms that are not.
\<close>

theorem init_conflict_strips_root:
  assumes "2 \<le> length ts" and "is_ConflictCause c"
  shows "strip_root ts c = filter (\<lambda>t. \<not> positive_root t) ts
       \<and> (root_free_intersect ops \<longrightarrow> init ops ts c = Inr i
            \<longrightarrow> (\<forall>t \<in> set (terms i). \<not> positive_root t))"
proof -
  from assms have s: "strip_root ts c = filter (\<lambda>t. \<not> positive_root t) ts"
    by (intro strip_root_filter) simp_all
  then have "\<forall>t \<in> set (strip_root ts c). \<not> positive_root t" by simp
  with s init_root_free [of ops ts c i] show ?thesis by blast
qed

theorem init_conflict_strips_root_witness:
  "init ex_ops conflict_terms (ConflictCause a_on_b b_on_c) = Inr learned
   \<and> list_ex positive_root conflict_terms
   \<and> list_all (\<lambda>t. \<not> positive_root t) (terms learned)"
proof -
  have l: "2 \<le> length conflict_terms"
    by (simp add: conflict_terms_def)
  have c: "is_ConflictCause (ConflictCause a_on_b b_on_c)"
    by simp
  have "list_ex positive_root conflict_terms"
    by code_simp
  with init_conflict_strips_root [OF l c, of ex_ops learned] ex_ops_root_free init_conflict_terms
  show ?thesis
    by (simp add: list_all_iff)
qed

section \<open>One term per package\<close>

lemma short_circuit_distinct:
  assumes "short_circuit ts"
  shows "distinct (map ref_of ts)"
proof -
  from assms consider (one) t where "ts = [t]"
    | (two) t u where "ts = [t, u]" and "ref_of t \<noteq> ref_of u"
    by (auto simp: short_circuit_def ref_of_def length_Suc_conv numeral_2_eq_2)
  then show ?thesis by cases simp_all
qed

lemma package_intersection_single:
  assumes "distinct (map ref_of ts)" and "t \<in> set ts"
  shows "package_intersection ops ts (ref_of t) = Some t"
proof -
  have "filter (\<lambda>u. ref_of u = ref_of t) ts = [t]"
    using assms
  proof (induction ts)
    case Nil
    then show ?case by simp
  next
    case (Cons x xs)
    show ?case
    proof (cases "x = t")
      case True
      with Cons.prems(1) have "ref_of t \<notin> ref_of ` set xs"
        by simp
      then have "\<forall>u \<in> set xs. ref_of u \<noteq> ref_of t"
        by (metis imageI)
      then have "filter (\<lambda>u. ref_of u = ref_of t) xs = []"
        by (simp add: filter_empty_conv)
      with True show ?thesis by simp
    next
      case False
      with Cons.prems have "t \<in> set xs" and "ref_of x \<noteq> ref_of t"
        by auto
      with Cons show ?thesis by simp
    qed
  qed
  then show ?thesis by (simp add: package_intersection_def)
qed

text \<open>
  C4: when the construction completes, no two stored terms share a package ref, and
  every stored term is the intersection of all the terms of one package in the list that
  is coalesced. Each \<open>by_ref\<close> holds a single term, so the choice between its positive
  terms and all its terms keeps that term in either case. That the result of an
  intersection is a term of the same package is asked of the missing \<open>Term.intersect\<close>.
\<close>

theorem init_one_term_per_package:
  assumes "intersect_keeps_ref ops" and "init ops ts c = Inr i"
  shows "distinct (map ref_of (terms i))
       \<and> (\<forall>t \<in> set (terms i). \<exists>cn. package_intersection ops (strip_root ts c) cn = Some t)"
proof (cases "short_circuit (strip_root ts c)")
  case True
  with assms(2) have i: "terms i = strip_root ts c"
    by (auto simp: init_flat)
  from True have "distinct (map ref_of (strip_root ts c))"
    by (rule short_circuit_distinct)
  with i package_intersection_single [of "strip_root ts c" _ ops] show ?thesis
    by auto
next
  case False
  with assms(2) obtain fl where fl: "flat_loop ops [] (strip_root ts c) = Inr fl"
    and i: "terms i = map snd fl"
    by (auto simp: init_flat split: sum.splits)
  have keys: "distinct (map fst fl)"
    using flat_loop_keys [OF fl] by simp
  have refs: "\<forall>(k, u) \<in> set fl. ref_of u = k"
    using flat_loop_refs [OF fl assms(1)] by simp
  then have "map (\<lambda>p. ref_of (snd p)) fl = map fst fl"
    by (intro map_cong) auto
  with keys have "distinct (map (\<lambda>p. ref_of (snd p)) fl)"
    by (simp only:)
  with i have d: "distinct (map ref_of (terms i))"
    by (simp add: comp_def)
  have "\<exists>cn. package_intersection ops (strip_root ts c) cn = Some t" if "t \<in> set (terms i)" for t
  proof -
    from that i obtain k where "(k, t) \<in> set fl" by auto
    with keys have "map_of fl k = Some t" by simp
    with flat_loop_value [OF fl, of k] show ?thesis
      by (auto simp: package_intersection_def)
  qed
  with d show ?thesis by blast
qed

theorem init_one_term_per_package_witness:
  "init ex_ops conflict_terms (ConflictCause a_on_b b_on_c) = Inr learned
   \<and> \<not> distinct (map ref_of conflict_terms)
   \<and> distinct (map ref_of (terms learned))"
proof -
  have "\<not> distinct (map ref_of conflict_terms)"
    by code_simp
  with init_one_term_per_package [OF ex_ops_keeps_ref init_conflict_terms] init_conflict_terms
  show ?thesis
    by simp
qed

section \<open>The assertion\<close>

text \<open>
  That every two terms of a package intersect does not keep the assertion from firing:
  of the three terms of \<open>pairwise_terms\<close> every two have a non-empty intersection, and
  the loop, which intersects them one after another, ends with an empty one.
\<close>

theorem pairwise_nonempty_aborts_counterexample:
  "pairwise_nonempty ex_ops pairwise_terms
   \<and> strip_root pairwise_terms (ConflictCause a_on_b b_on_c) = pairwise_terms
   \<and> init ex_ops pairwise_terms (ConflictCause a_on_b b_on_c) = Inl AssertionError"
  by code_simp

text \<open>
  C5, as the code has it: the construction fails, and then with the assertion error,
  exactly when for some package of the list left after the root package is stripped the
  terms, intersected one after another in list order, reach an empty intersection; when
  no package does, the construction returns an incompatibility.
\<close>

theorem init_aborts_iff_empty_intersection:
  "(init ops ts c = Inl e \<longleftrightarrow>
      e = AssertionError
      \<and> (\<exists>cn \<in> set (map ref_of (strip_root ts c)).
            package_intersection ops (strip_root ts c) cn = None))
   \<and> ((\<forall>cn \<in> set (map ref_of (strip_root ts c)).
          package_intersection ops (strip_root ts c) cn \<noteq> None)
        \<longrightarrow> (\<exists>i. init ops ts c = Inr i))"
proof -
  have sc: "package_intersection ops (strip_root ts c) cn \<noteq> None"
    if "short_circuit (strip_root ts c)" and "cn \<in> set (map ref_of (strip_root ts c))" for cn
  proof -
    from that(2) obtain t where t: "t \<in> set (strip_root ts c)" and cn: "cn = ref_of t"
      by auto
    from package_intersection_single [OF short_circuit_distinct [OF that(1)] t, of ops] cn
    show ?thesis by simp
  qed
  have a: "init ops ts c = Inl e \<longleftrightarrow>
      e = AssertionError
      \<and> (\<exists>cn \<in> set (map ref_of (strip_root ts c)).
            package_intersection ops (strip_root ts c) cn = None)" for e
  proof (cases "short_circuit (strip_root ts c)")
    case True
    with sc show ?thesis
      by (auto simp: init_flat)
  next
    case False
    with flat_loop_error [of ops "[]" "strip_root ts c" e] show ?thesis
      by (auto simp: init_flat package_intersection_def split: sum.splits)
  qed
  have "\<exists>i. init ops ts c = Inr i"
    if "\<forall>cn \<in> set (map ref_of (strip_root ts c)).
          package_intersection ops (strip_root ts c) cn \<noteq> None"
  proof (cases "init ops ts c")
    case (Inl e')
    with a [of e'] that show ?thesis by blast
  next
    case (Inr i)
    then show ?thesis by blast
  qed
  with a show ?thesis by blast
qed

theorem init_aborts_iff_empty_intersection_witness:
  "init ex_ops clash_terms DependencyCause = Inl AssertionError
   \<and> package_intersection ex_ops clash_terms ''a'' = None
   \<and> list_all (\<lambda>cn. package_intersection ex_ops overlap_terms cn \<noteq> None) (map ref_of overlap_terms)
   \<and> (\<exists>i. init ex_ops overlap_terms DependencyCause = Inr i)"
proof -
  have s1: "strip_root clash_terms DependencyCause = clash_terms"
    and s2: "strip_root overlap_terms DependencyCause = overlap_terms"
    by (simp_all add: strip_root_def)
  have 1: "init ex_ops clash_terms DependencyCause = Inl AssertionError"
    by code_simp
  have 2: "package_intersection ex_ops clash_terms ''a'' = None"
    by code_simp
  have 3: "list_all (\<lambda>cn. package_intersection ex_ops overlap_terms cn \<noteq> None) (map ref_of overlap_terms)"
    by code_simp
  from 3 init_aborts_iff_empty_intersection [of ex_ops overlap_terms DependencyCause]
  have "\<exists>i. init ex_ops overlap_terms DependencyCause = Inr i"
    by (simp add: s2 list_all_iff)
  with 1 2 3 show ?thesis by simp
qed

section \<open>External incompatibilities\<close>

lemma external_sound:
  "j \<in> set (external_incompatibilities i) \<Longrightarrow> reachable i j \<and> \<not> is_ConflictCause (cause j)"
proof (induction i rule: external_incompatibilities.induct)
  case (1 ts c o')
  then show ?case
    by (auto intro: reachable.intros)
qed (auto intro: reachable.intros)

lemma external_complete:
  "reachable i j \<Longrightarrow> \<not> is_ConflictCause (cause j) \<Longrightarrow> j \<in> set (external_incompatibilities i)"
proof (induction rule: reachable.induct)
  case (here i)
  then show ?case
    by (cases i rule: external_incompatibilities.cases) auto
qed auto

text \<open>
  C6: \<open>external_incompatibilities\<close> yields exactly the incompatibilities without a
  conflict cause that are reachable through conflict parents, those of the \<open>conflict\<close>
  parent before those of the \<open>other\<close> parent; an incompatibility without a conflict
  cause yields itself alone.
\<close>

theorem external_incompatibilities_leaves:
  "set (external_incompatibilities i) = {j. reachable i j \<and> \<not> is_ConflictCause (cause j)}
   \<and> (\<forall>ts c o'. i = Incompatibility ts (ConflictCause c o')
        \<longrightarrow> external_incompatibilities i
              = external_incompatibilities c @ external_incompatibilities o')
   \<and> (\<not> is_ConflictCause (cause i) \<longrightarrow> external_incompatibilities i = [i])"
proof -
  have "set (external_incompatibilities i) = {j. reachable i j \<and> \<not> is_ConflictCause (cause j)}"
    using external_sound [of _ i] external_complete [of i] by blast
  moreover have "external_incompatibilities i = [i]" if "\<not> is_ConflictCause (cause i)"
    using that by (cases i rule: external_incompatibilities.cases) auto
  ultimately show ?thesis by simp
qed

theorem external_incompatibilities_leaves_witness:
  "external_incompatibilities derived = [a_on_b, b_on_c, b_on_c]
   \<and> {j. reachable derived j \<and> \<not> is_ConflictCause (cause j)} = {a_on_b, b_on_c}
   \<and> external_incompatibilities a_on_b = [a_on_b]"
proof -
  have e: "external_incompatibilities derived = [a_on_b, b_on_c, b_on_c]"
    by (simp add: derived_def learned_def a_on_b_def b_on_c_def)
  have c: "\<not> is_ConflictCause (cause a_on_b)"
    by (simp add: a_on_b_def)
  from external_incompatibilities_leaves [of derived] e
  have "{j. reachable derived j \<and> \<not> is_ConflictCause (cause j)} = {a_on_b, b_on_c}"
    by auto
  with e c external_incompatibilities_leaves [of a_on_b] show ?thesis
    by simp
qed

section \<open>Rendering of the leaf causes\<close>

text \<open>
  C7: with a no-versions cause and a single positive term, \<open>__str__\<close> gives
  "no versions of NAME match CONSTRAINT"; with a package-not-found cause and a single
  positive term it gives "NAME doesn't exist".
\<close>

theorem str_no_versions_and_not_found:
  "(cause i = NoVersionsCause \<and> terms i = [t] \<and> is_positive t
      \<longrightarrow> str_incompatibility ops i
            = Inr (''no versions of '' @ name (dependency t) @ '' match ''
                   @ constraint_str ops (term_constraint t)))
   \<and> (cause i = PackageNotFoundCause \<and> terms i = [t] \<and> is_positive t
      \<longrightarrow> str_incompatibility ops i
            = Inr (name (dependency t) @ '' doesn'' @ [CHR 0x27] @ ''t exist''))"
  by (simp add: str_incompatibility_def)

theorem str_no_versions_and_not_found_witness:
  "str_incompatibility ex_ops (Incompatibility [pos ''a'' [''>=5.0'']] NoVersionsCause)
     = Inr ''no versions of a match >=5.0''
   \<and> str_incompatibility ex_ops (Incompatibility [pos ''ghost'' [''*'']] PackageNotFoundCause)
     = Inr (''ghost doesn'' @ [CHR 0x27] @ ''t exist'')"
  using str_no_versions_and_not_found
      [of "Incompatibility [pos ''a'' [''>=5.0'']] NoVersionsCause" "pos ''a'' [''>=5.0'']" ex_ops]
    str_no_versions_and_not_found
      [of "Incompatibility [pos ''ghost'' [''*'']] PackageNotFoundCause" "pos ''ghost'' [''*'']" ex_ops]
  by (simp add: pos_def dep_def ex_ops_def term_constraint_def)

section \<open>What the renderers read\<close>
















section \<open>Release information of a missing package\<close>

text \<open>
  A page that exists does not make \<open>_get_release_info\<close> return: the page of \<open>demo\<close>
  has no link for version 1.1.0, and the error of \<open>_links_to_data\<close> comes out.
\<close>

theorem get_release_info_missing_version_counterexample:
  "get_page ex_repo (''/'' @ canonicalize_name ex_repo ''demo'' @ ''/'')
     = Some \<lparr>page_url = ''http://foo.bar/demo/'', page_content = ''demo-0.1.0.tar.gz''\<rparr>
   \<and> get_release_info ex_repo ''demo'' ''1.1.0''
     = Inl (PackageNotFound ''No valid distribution links found'')"
  by (simp add: get_release_info_def get_page_def ex_repo_def)

text \<open>
  C9, as the code has it: when the page of the package cannot be obtained,
  \<open>_get_release_info\<close> raises \<open>PackageNotFound\<close>; when the page exists its outcome is
  that of \<open>Version.parse\<close> and \<open>_links_to_data\<close> on the links of that version: the
  release data when both return, their error otherwise.
\<close>

theorem get_release_info_page:
  "(get_page repo (''/'' @ canonicalize_name repo nm @ ''/'') = None
      \<longrightarrow> get_release_info repo nm version
            = Inl (PackageNotFound (''No package named '' @ [CHR 0x22] @ nm @ [CHR 0x22])))
   \<and> (get_page repo (''/'' @ canonicalize_name repo nm @ ''/'') = Some page
        \<and> version_parse repo version = Inr v
        \<and> links_to_data repo (links_for_version repo page nm v)
             \<lparr>info_name = nm, info_version = version, summary = [],
              info_platform = None, requires_dist = [], requires_python = None,
              files = [], cache_version = CACHE_VERSION repo\<rparr> = Inr data
      \<longrightarrow> get_release_info repo nm version = Inr data)
   \<and> (get_page repo (''/'' @ canonicalize_name repo nm @ ''/'') = Some page
      \<longrightarrow> get_release_info repo nm version
            = (case version_parse repo version of
                 Inl e \<Rightarrow> Inl e
               | Inr v' \<Rightarrow>
                   links_to_data repo (links_for_version repo page nm v')
                     \<lparr>info_name = nm, info_version = version, summary = [],
                      info_platform = None, requires_dist = [], requires_python = None,
                      files = [], cache_version = CACHE_VERSION repo\<rparr>))"
  by (simp add: get_release_info_def)

theorem get_release_info_page_witness:
  "get_page ex_repo ''/ghost/'' = None
   \<and> get_release_info ex_repo ''ghost'' ''1.1.0''
       = Inl (PackageNotFound (''No package named '' @ [CHR 0x22] @ ''ghost'' @ [CHR 0x22]))
   \<and> get_release_info ex_repo ''demo'' ''0.1.0''
       = Inr [''demo'', ''0.1.0'', ''http://foo.bar/demo/demo-0.1.0.tar.gz'']"
proof -
  have g: "get_page ex_repo (''/'' @ canonicalize_name ex_repo ''ghost'' @ ''/'') = None"
    by (simp add: get_page_def ex_repo_def)
  have d: "get_page ex_repo (''/'' @ canonicalize_name ex_repo ''demo'' @ ''/'')
             = Some \<lparr>page_url = ''http://foo.bar/demo/'', page_content = ''demo-0.1.0.tar.gz''\<rparr>"
    by (simp add: get_page_def ex_repo_def)
  have p: "version_parse ex_repo ''0.1.0'' = Inr ''0.1.0''"
    by (simp add: ex_repo_def)
  have l: "links_to_data ex_repo
             (links_for_version ex_repo
                \<lparr>page_url = ''http://foo.bar/demo/'', page_content = ''demo-0.1.0.tar.gz''\<rparr>
                ''demo'' ''0.1.0'')
             \<lparr>info_name = ''demo'', info_version = ''0.1.0'', summary = [],
              info_platform = None, requires_dist = [], requires_python = None,
              files = [], cache_version = CACHE_VERSION ex_repo\<rparr>
           = Inr [''demo'', ''0.1.0'', ''http://foo.bar/demo/demo-0.1.0.tar.gz'']"
    by (simp add: ex_repo_def)
  from g have g': "get_page ex_repo ''/ghost/'' = None"
    by (simp add: ex_repo_def)
  from get_release_info_page [of ex_repo "''ghost''" "''1.1.0''"] g
    get_release_info_page [of ex_repo "''demo''" "''0.1.0''"
      "\<lparr>page_url = ''http://foo.bar/demo/'', page_content = ''demo-0.1.0.tar.gz''\<rparr>" "''0.1.0''"
      "[''demo'', ''0.1.0'', ''http://foo.bar/demo/demo-0.1.0.tar.gz'']"] d p l g'
  show ?thesis by simp
qed

section \<open>Singleton inputs\<close>

text \<open>
  C10: for a one-element terms list and any cause, the constructed incompatibility
  stores exactly the input list; nothing is stripped or coalesced, also when the cause
  is a conflict and the term is a positive term on the root package.
\<close>

theorem init_singleton: "init ops [t] c = Inr (Incompatibility [t] c)"
  by (simp add: init_def strip_root_def short_circuit_def)

theorem init_singleton_witness:
  "init ex_ops [root_term True] (ConflictCause a_on_b b_on_c)
     = Inr (Incompatibility [root_term True] (ConflictCause a_on_b b_on_c))"
  using init_singleton [of ex_ops "root_term True" "ConflictCause a_on_b b_on_c"] .

end
